theory Spec2Isabelle
  imports Complex_Main
begin

section \<open>Data model (types.ts, constants.ts)\<close>

text \<open>
  The voices of \<^verbatim>\<open>LanguageOption.voice\<close>, the two interfaces of types.ts and the
  language catalogue of constants.ts. JavaScript strings are modelled as HOL strings
  (lists of 8-bit characters); the speech rate, a JavaScript number that is only ever
  passed through, is a real.
\<close>

datatype voice = Kore | Puck | Charon | Zephyr | Fenrir

record LanguageOption =
  code :: string
  name :: string
  voice :: voice

record RememberedPerson =
  name :: string
  imageBase64 :: string

definition LANGUAGES :: "LanguageOption list" where
  "LANGUAGES =
     [\<lparr>code = ''en-US'', name = ''English (US)'', voice = Zephyr\<rparr>,
      \<lparr>code = ''en-GB'', name = ''English (UK)'', voice = Puck\<rparr>,
      \<lparr>code = ''es-ES'', name = ''Spanish'', voice = Charon\<rparr>,
      \<lparr>code = ''hi-IN'', name = ''Hindi'', voice = Kore\<rparr>,
      \<lparr>code = ''kn-IN'', name = ''Kannada'', voice = Fenrir\<rparr>,
      \<lparr>code = ''te-IN'', name = ''Telugu'', voice = Zephyr\<rparr>]"

section \<open>Session state of the App component\<close>

text \<open>
  One field per \<^verbatim>\<open>useState\<close> cell of \<^verbatim>\<open>App\<close>, in the order of the source, then
  \<^verbatim>\<open>isCancelledRef.current\<close> and the two values read from the
  \<^verbatim>\<open>useSpeechRecognition\<close> hook. \<^verbatim>\<open>currentAction\<close> has the source's type
  \<^verbatim>\<open>string | null\<close>; the only strings ever stored are \<^verbatim>\<open>'describe'\<close>,
  \<^verbatim>\<open>'person'\<close>, \<^verbatim>\<open>'ask'\<close> and \<^verbatim>\<open>'live'\<close>.
\<close>

record session =
  isOnline :: bool
  speechSpeed :: real
  language :: LanguageOption
  isProcessing :: bool
  currentAction :: "string option"
  rememberedPeople :: "RememberedPerson list"
  isLive :: bool
  showRememberModal :: bool
  frameToRemember :: "string option"
  isCancelled :: bool
  isListening :: bool
  transcript :: string

text \<open>The state after the first render; \<^verbatim>\<open>navigator.onLine\<close> is the argument.\<close>

definition initial :: "bool \<Rightarrow> session" where
  "initial online =
     \<lparr>isOnline = online, speechSpeed = 1, language = LANGUAGES ! 0,
      isProcessing = False, currentAction = None, rememberedPeople = [],
      isLive = False, showRememberModal = False, frameToRemember = None,
      isCancelled = False, isListening = False, transcript = []\<rparr>"

section \<open>Calls to the collaborators, and pending continuations\<close>

text \<open>
  Every call the component makes to a service it imports is recorded, in call order,
  as an \<open>effect\<close>. The services themselves (ttsService, geminiService, liveService,
  the recognition hook) are not part of the component.
\<close>

datatype effect =
    Speak string voice real
  | StopSpeech
  | StartListening
  | StopListening
  | DescribeScene string string
  | DescribePerson string "RememberedPerson list" string
  | AskWithContext "string option" string string
  | LiveStart voice
  | LiveStop
  | SendVideoFrame string
  | ConsoleError

text \<open>
  A callback made by \<^verbatim>\<open>useCallback\<close> closes over the state values of the render that
  created it: inside \<^verbatim>\<open>processAndSpeak\<close> the names \<^verbatim>\<open>language.voice\<close>,
  \<^verbatim>\<open>speechSpeed\<close> and \<^verbatim>\<open>currentAction\<close> are constants of that render, and the
  setters (also \<^verbatim>\<open>setCurrentAction(actionType)\<close> at its start) never rebind them.
  Every dependency list of the component names all the state its callback reads, so
  a handler that runs on an event, and the \<^verbatim>\<open>processAndSpeak\<close> it calls, see the
  state of the latest render; the part of an \<^verbatim>\<open>async\<close> function that runs after an
  \<^verbatim>\<open>await\<close> still sees the values of the render in which the call was made,
  whatever has been set since. A \<open>closure\<close> holds those values for one call of
  \<^verbatim>\<open>processAndSpeak\<close>. Only \<^verbatim>\<open>isCancelledRef.current\<close> is a mutable cell, read
  when the continuation runs.
\<close>

record closure =
  cl_actionType :: string
  cl_voice :: voice
  cl_rate :: real
  cl_currentAction :: "string option"

text \<open>
  The continuations a handler leaves behind: the body of \<^verbatim>\<open>processAndSpeak\<close> after
  \<^verbatim>\<open>await action\<close>; the callback of \<^verbatim>\<open>setTimeout(..., 100)\<close> in
  \<^verbatim>\<open>handleStop\<close> (with its delay); the part of \<^verbatim>\<open>handleLive\<close> after
  \<^verbatim>\<open>await liveService.start\<close> (with the voice and rate its \<^verbatim>\<open>catch\<close> speaks
  with) and after \<^verbatim>\<open>await liveService.stop()\<close>.
\<close>

datatype task =
    RemoteCall closure
  | CancelReset nat
  | LiveStarting voice real
  | LiveStopping

datatype settled = Resolved string | Rejected

section \<open>String helpers\<close>

text \<open>
  \<^verbatim>\<open>String.prototype.trim\<close> on 8-bit code units: tab, line feed, vertical tab, form
  feed, carriage return, space and no-break space are removed from both ends.
\<close>

definition is_whitespace :: "char \<Rightarrow> bool" where
  "is_whitespace c =
     (c \<in> set [CHR 0x09, CHR 0x0A, CHR 0x0B, CHR 0x0C, CHR 0x0D, CHR 0x20, CHR 0xA0])"

definition trim :: "string \<Rightarrow> string" where
  "trim str = rev (dropWhile is_whitespace (rev (dropWhile is_whitespace str)))"

section \<open>Intent handlers\<close>

text \<open>
  Each handler takes the state of the latest render and returns the state after its
  setter calls, the calls it made to collaborators and the continuations it left
  pending. A handler that calls \<^verbatim>\<open>captureFrame()\<close> takes what that call returns as
  the argument \<open>frame\<close> (\<open>None\<close> for \<^verbatim>\<open>null\<close>); the test \<^verbatim>\<open>if (frame)\<close> is false
  for \<^verbatim>\<open>null\<close> and for the empty string.
\<close>

definition handleStop :: "session \<Rightarrow> session \<times> effect list \<times> task list" where
  "handleStop s =
     (let s1 = s\<lparr>isCancelled := True\<rparr>;
          e1 = [StopSpeech];
          e2 = (if isListening s then [StopListening] else []);
          e3 = (if isLive s then [LiveStop] else []);
          s2 = (if isLive s then s1\<lparr>isLive := False\<rparr> else s1);
          s3 = (if showRememberModal s then s2\<lparr>showRememberModal := False\<rparr> else s2);
          s4 = s3\<lparr>isProcessing := False, currentAction := None\<rparr>
      in (s4, e1 @ e2 @ e3, [CancelReset 100]))"

text \<open>The callback of the timer started by \<^verbatim>\<open>handleStop\<close>.\<close>

definition handleStop_timeout :: "session \<Rightarrow> session" where
  "handleStop_timeout s = s\<lparr>isCancelled := False\<rparr>"

text \<open>
  \<^verbatim>\<open>processAndSpeak\<close> up to its \<^verbatim>\<open>await action\<close>: the three assignments, and the
  closure of the call.
\<close>

definition processAndSpeak :: "session \<Rightarrow> string \<Rightarrow> session \<times> task list" where
  "processAndSpeak s actionType =
     (s\<lparr>isCancelled := False, isProcessing := True, currentAction := Some actionType\<rparr>,
      [RemoteCall \<lparr>cl_actionType = actionType, cl_voice = voice (language s),
                   cl_rate = speechSpeed s, cl_currentAction = currentAction s\<rparr>])"

text \<open>
  The \<^verbatim>\<open>try\<close> and \<^verbatim>\<open>catch\<close> blocks once \<^verbatim>\<open>action\<close> has settled, run in the
  current state \<open>s\<close>: the cancellation flag is read from the ref, voice and rate from
  the closure.
\<close>

definition processAndSpeak_try :: "closure \<Rightarrow> settled \<Rightarrow> session \<Rightarrow> effect list" where
  "processAndSpeak_try c r s =
     (case r of
        Resolved responseText \<Rightarrow>
          (if isCancelled s then [] else [Speak responseText (cl_voice c) (cl_rate c)])
      | Rejected \<Rightarrow>
          (if isCancelled s then []
           else [ConsoleError,
                 Speak ''Sorry, I encountered an error. Please try again.''
                   (cl_voice c) (cl_rate c)]))"

text \<open>The \<^verbatim>\<open>finally\<close> block: \<^verbatim>\<open>currentAction\<close> there is the closure's constant.\<close>

definition processAndSpeak_finally :: "closure \<Rightarrow> session \<Rightarrow> session" where
  "processAndSpeak_finally c s =
     (if cl_currentAction c = Some (cl_actionType c)
      then s\<lparr>isProcessing := False, currentAction := None\<rparr>
      else s)"

text \<open>
  The whole continuation, for a run in which the promise of \<^verbatim>\<open>speak\<close> resolves and
  no other event is handled while it is awaited. When the flag is set the source
  returns without awaiting anything, and \<^verbatim>\<open>finally\<close> runs in the same turn.
\<close>

definition processAndSpeak_settle :: "closure \<Rightarrow> settled \<Rightarrow> session \<Rightarrow> session \<times> effect list" where
  "processAndSpeak_settle c r s = (processAndSpeak_finally c s, processAndSpeak_try c r s)"

definition handleDescribe :: "session \<Rightarrow> string option \<Rightarrow> session \<times> effect list \<times> task list" where
  "handleDescribe s frame =
     (if currentAction s = Some ''describe'' then handleStop s
      else if isProcessing s then (s, [], [])
      else (case frame of
              None \<Rightarrow> (s, [], [])
            | Some f \<Rightarrow>
                if f = [] then (s, [], [])
                else (fst (processAndSpeak s ''describe''),
                      [Speak ''Analyzing the scene...'' (voice (language s)) (speechSpeed s),
                       DescribeScene f (LanguageOption.name (language s))],
                      snd (processAndSpeak s ''describe''))))"

definition handlePerson :: "session \<Rightarrow> string option \<Rightarrow> session \<times> effect list \<times> task list" where
  "handlePerson s frame =
     (if currentAction s = Some ''person'' then handleStop s
      else if isProcessing s then (s, [], [])
      else (case frame of
              None \<Rightarrow> (s, [], [])
            | Some f \<Rightarrow>
                if f = [] then (s, [], [])
                else (fst (processAndSpeak s ''person''),
                      [Speak ''Looking for a person...'' (voice (language s)) (speechSpeed s),
                       DescribePerson f (rememberedPeople s) (LanguageOption.name (language s))],
                      snd (processAndSpeak s ''person''))))"

definition handleRemember :: "session \<Rightarrow> string option \<Rightarrow> session \<times> effect list \<times> task list" where
  "handleRemember s frame =
     (if isProcessing s then (s, [], [])
      else (case frame of
              None \<Rightarrow> (s, [], [])
            | Some f \<Rightarrow>
                if f = [] then (s, [], [])
                else (s\<lparr>frameToRemember := Some f, showRememberModal := True\<rparr>, [], [])))"

text \<open>
  \<^verbatim>\<open>name.trim() && frameToRemember\<close> is true when the trimmed name and the pending
  frame are both non-empty strings.
\<close>

definition handleSavePerson :: "session \<Rightarrow> string \<Rightarrow> session \<times> effect list \<times> task list" where
  "handleSavePerson s nm =
     (case frameToRemember s of
        None \<Rightarrow> (s\<lparr>showRememberModal := False, frameToRemember := None\<rparr>, [], [])
      | Some f \<Rightarrow>
          if trim nm \<noteq> [] \<and> f \<noteq> []
          then (s\<lparr>rememberedPeople := rememberedPeople s @ [\<lparr>name = trim nm, imageBase64 = f\<rparr>],
                  showRememberModal := False, frameToRemember := None\<rparr>,
                [Speak (''I'll remember '' @ trim nm @ ''.'') (voice (language s)) (speechSpeed s)],
                [])
          else (s\<lparr>showRememberModal := False, frameToRemember := None\<rparr>, [], []))"

text \<open>The \<^verbatim>\<open>onClose\<close> of the dialog (its cancel button).\<close>

definition closeRememberModal :: "session \<Rightarrow> session" where
  "closeRememberModal s = s\<lparr>showRememberModal := False\<rparr>"

definition handleAsk :: "session \<Rightarrow> session \<times> effect list \<times> task list" where
  "handleAsk s =
     (if currentAction s = Some ''ask'' then handleStop s
      else if isListening s then (s, [StopListening], [])
      else if \<not> isProcessing s
      then (s, [Speak ''Listening...'' (voice (language s)) (speechSpeed s), StartListening], [])
      else (s, [], []))"

text \<open>
  The effect that runs after a render in which recognition has ended with a
  transcript; \<open>frame\<close> is what \<^verbatim>\<open>captureFrame()\<close> returns, passed on as it is.
\<close>

definition askEffect :: "session \<Rightarrow> string option \<Rightarrow> session \<times> effect list \<times> task list" where
  "askEffect s frame =
     (if \<not> isListening s \<and> transcript s \<noteq> []
      then (fst (processAndSpeak s ''ask''),
            [Speak (''Asking: '' @ [CHR 0x22] @ transcript s @ [CHR 0x22])
               (voice (language s)) (speechSpeed s),
             AskWithContext frame (transcript s) (LanguageOption.name (language s))],
            snd (processAndSpeak s ''ask''))
      else (s, [], []))"

text \<open>
  \<^verbatim>\<open>handleLive\<close> up to its first \<^verbatim>\<open>await\<close>. When live, only
  \<^verbatim>\<open>liveService.stop()\<close> has been called and no setter yet. Otherwise
  \<^verbatim>\<open>handleStop()\<close> runs first, then the two setters, then \<^verbatim>\<open>liveService.start\<close>.
\<close>

definition handleLive :: "session \<Rightarrow> session \<times> effect list \<times> task list" where
  "handleLive s =
     (if isLive s then (s, [LiveStop], [LiveStopping])
      else (let s1 = fst (handleStop s);
                s2 = s1\<lparr>currentAction := Some ''live'', isLive := True\<rparr>
            in (s2,
                fst (snd (handleStop s)) @ [LiveStart (voice (language s))],
                snd (snd (handleStop s)) @ [LiveStarting (voice (language s)) (speechSpeed s)])))"

text \<open>
  After \<^verbatim>\<open>await liveService.stop()\<close>: the two setters when the promise resolved;
  nothing when it rejected (the branch has no handler).
\<close>

definition handleLive_stopped :: "bool \<Rightarrow> session \<Rightarrow> session" where
  "handleLive_stopped resolved s =
     (if resolved then s\<lparr>isLive := False, currentAction := None\<rparr> else s)"

text \<open>The \<^verbatim>\<open>onClose\<close> callback handed to \<^verbatim>\<open>liveService.start\<close>.\<close>

definition handleLive_onClose :: "session \<Rightarrow> session" where
  "handleLive_onClose s = s\<lparr>isLive := False, currentAction := None\<rparr>"

text \<open>The \<^verbatim>\<open>catch\<close> block of \<^verbatim>\<open>handleLive\<close>, with the voice and rate of its closure.\<close>

definition handleLive_startFailed :: "voice \<Rightarrow> real \<Rightarrow> session \<Rightarrow> session \<times> effect list" where
  "handleLive_startFailed v r s =
     (s\<lparr>isLive := False, currentAction := None\<rparr>,
      [ConsoleError, Speak ''Could not start live mode.'' v r])"

text \<open>
  The listener of the \<^verbatim>\<open>online\<close> and \<^verbatim>\<open>offline\<close> events; its argument is the
  value of \<^verbatim>\<open>navigator.onLine\<close> when it runs.
\<close>

definition updateOnlineStatus :: "bool \<Rightarrow> session \<Rightarrow> session" where
  "updateOnlineStatus online s = s\<lparr>isOnline := online\<rparr>"

text \<open>The two setters handed to the header.\<close>

definition setLanguage :: "LanguageOption \<Rightarrow> session \<Rightarrow> session" where
  "setLanguage l s = s\<lparr>language := l\<rparr>"

definition setSpeechSpeed :: "real \<Rightarrow> session \<Rightarrow> session" where
  "setSpeechSpeed r s = s\<lparr>speechSpeed := r\<rparr>"

section \<open>Live-mode frame feed\<close>

text \<open>
  The last effect of the component. After every render in which \<^verbatim>\<open>isLive\<close> has
  changed, the cleanup of the previous run clears its interval and the effect arms a
  new one exactly when \<^verbatim>\<open>isLive\<close> is true: between two events the interval is
  armed iff the flag is set.
\<close>

definition liveFeedArmed :: "session \<Rightarrow> bool" where
  "liveFeedArmed s = isLive s"

text \<open>The callback of the interval; \<open>frame\<close> is what \<^verbatim>\<open>captureFrame()\<close> returns.\<close>

definition liveFeedTick :: "string option \<Rightarrow> effect list" where
  "liveFeedTick frame =
     (case frame of
        None \<Rightarrow> []
      | Some f \<Rightarrow> if f = [] then [] else [SendVideoFrame f])"

text \<open>
  The timeline of one interval, in milliseconds: armed (or last fired) at time \<open>t\<close>,
  cleared at time \<open>cleared\<close>, with \<^verbatim>\<open>setInterval(..., 500)\<close> firing at its nominal
  times, each strictly before the interval is cleared. \<open>camera\<close> gives what
  \<^verbatim>\<open>captureFrame()\<close> returns at each time. The result lists every firing with the
  calls it makes.
\<close>

function liveFeed :: "(nat \<Rightarrow> string option) \<Rightarrow> nat \<Rightarrow> nat \<Rightarrow> (nat \<times> effect list) list" where
  "liveFeed camera t cleared =
     (if t + 500 < cleared
      then (t + 500, liveFeedTick (camera (t + 500))) # liveFeed camera (t + 500) cleared
      else [])"
  by pat_completeness auto
termination
  by (relation "measure (\<lambda>(camera, t, cleared). cleared - t)") auto

text \<open>
  Live mode switched on at time 0 and the live intent handled again at time
  \<open>pressed\<close>: \<^verbatim>\<open>handleLive\<close> calls \<^verbatim>\<open>liveService.stop()\<close> then, and clears
  \<^verbatim>\<open>isLive\<close> only when that promise resolves, \<open>teardown\<close> milliseconds later.
\<close>

definition liveToggleRun :: "(nat \<Rightarrow> string option) \<Rightarrow> nat \<Rightarrow> nat \<Rightarrow> (nat \<times> effect list) list" where
  "liveToggleRun camera pressed teardown = liveFeed camera 0 (pressed + teardown)"

section \<open>Invariants\<close>

text \<open>The invariant of the specification: a set processing flag comes with a current action.\<close>

definition processing_has_action :: "session \<Rightarrow> bool" where
  "processing_has_action s = (isProcessing s \<longrightarrow> currentAction s \<noteq> None)"


text \<open>
  The remember dialog is open only while a non-empty frame is pending.
\<close>

definition dialog_has_frame :: "session \<Rightarrow> bool" where
  "dialog_has_frame s =
     (showRememberModal s \<longrightarrow>
        (case frameToRemember s of None \<Rightarrow> False | Some f \<Rightarrow> f \<noteq> []))"

section \<open>Concrete runs\<close>

text \<open>
  States and closures of a few short runs from the initial state, used where a
  statement is evaluated at a concrete input. The frame captured is \<open>''img''\<close>.
\<close>

definition run_describing :: session where
  "run_describing = fst (handleDescribe (initial True) (Some ''img''))"

definition run_describe_closure :: closure where
  "run_describe_closure =
     \<lparr>cl_actionType = ''describe'', cl_voice = Zephyr, cl_rate = 1, cl_currentAction = None\<rparr>"

definition run_stopped :: session where
  "run_stopped = fst (handleDescribe run_describing None)"

definition run_settings_changed :: session where
  "run_settings_changed = setSpeechSpeed 2 (setLanguage (LANGUAGES ! 1) run_describing)"

definition run_live :: session where
  "run_live = handleStop_timeout (fst (handleLive (initial True)))"

definition run_live_describing :: session where
  "run_live_describing = fst (handleDescribe run_live (Some ''img''))"


definition run_remembering :: session where
  "run_remembering = fst (handleRemember (initial True) (Some ''img''))"

definition camera_on :: "nat \<Rightarrow> string option" where
  "camera_on t = Some ''img''"

section \<open>Facts shared by the claims\<close>

lemma handleStop_state:
  "fst (handleStop s) =
     s\<lparr>isCancelled := True, isLive := False, showRememberModal := False,
       isProcessing := False, currentAction := None\<rparr>"
  by (cases s) (simp add: handleStop_def Let_def)

lemma handleStop_effects:
  "fst (snd (handleStop s)) =
     [StopSpeech] @ (if isListening s then [StopListening] else [])
       @ (if isLive s then [LiveStop] else [])"
  by (simp add: handleStop_def Let_def)

lemma handleStop_tasks: "snd (snd (handleStop s)) = [CancelReset 100]"
  by (simp add: handleStop_def Let_def)

lemma run_describing_eq:
  "run_describing = (initial True)\<lparr>isProcessing := True, currentAction := Some ''describe''\<rparr>"
  by (simp add: run_describing_def handleDescribe_def processAndSpeak_def initial_def)

lemma run_live_eq:
  "run_live = (initial True)\<lparr>currentAction := Some ''live'', isLive := True\<rparr>"
  by (simp add: run_live_def handleLive_def handleStop_state handleStop_timeout_def initial_def)

section \<open>Completion of a single-shot call\<close>

text \<open>
  When the cancellation flag is not set, the result text, or the fixed apology, is
  spoken with the voice and rate of the closure.
\<close>

lemma processAndSpeak_speaks:
  "\<not> isCancelled s \<Longrightarrow>
     processAndSpeak_try c (Resolved txt) s = [Speak txt (cl_voice c) (cl_rate c)]
   \<and> processAndSpeak_try c Rejected s =
       [ConsoleError,
        Speak ''Sorry, I encountered an error. Please try again.'' (cl_voice c) (cl_rate c)]"
  by (simp add: processAndSpeak_try_def)

text \<open>
  A call made by the describe or the identify-person handler never clears the state
  when it completes: the handler made the call only because the current action of
  its render was not the call's own action, and the \<^verbatim>\<open>finally\<close> block compares
  that same value.
\<close>

lemma handler_calls_never_clear:
  "snd (snd (handleDescribe s frame)) = [RemoteCall c] \<or>
   snd (snd (handlePerson s frame)) = [RemoteCall c] \<Longrightarrow>
   processAndSpeak_finally c s' = s'"
  by (auto simp: handleDescribe_def handlePerson_def handleStop_def Let_def processAndSpeak_def
      processAndSpeak_finally_def split: if_splits option.splits)

text \<open>
  C1. The claim: when the call of a single-shot action settles and the cancellation
  flag is not set, the result text (or, on failure, the fixed apology) is spoken, and
  the processing flag and the current action are cleared whenever the current action
  is still the one the call was made for. The code speaks as claimed but does not
  clear: from the initial state, the describe intent with frame \<open>''img''\<close> makes a call
  whose closure holds no current action; when the call resolves with \<open>''A cat.''\<close>, or
  rejects, the current action is still \<open>''describe''\<close> and the flag is not set, the
  text is spoken, and the processing flag and the current action stay as they were.
\<close>

theorem describe_completion_leaves_processing:
  "handleDescribe (initial True) (Some ''img'')
     = (run_describing,
        [Speak ''Analyzing the scene...'' Zephyr 1, DescribeScene ''img'' ''English (US)''],
        [RemoteCall run_describe_closure])
   \<and> \<not> isCancelled run_describing
   \<and> currentAction run_describing = Some (cl_actionType run_describe_closure)
   \<and> processAndSpeak_settle run_describe_closure (Resolved ''A cat.'') run_describing
     = (run_describing, [Speak ''A cat.'' Zephyr 1])
   \<and> processAndSpeak_settle run_describe_closure Rejected run_describing
     = (run_describing,
        [ConsoleError, Speak ''Sorry, I encountered an error. Please try again.'' Zephyr 1])
   \<and> isProcessing run_describing
   \<and> currentAction run_describing = Some ''describe''"
  by (simp add: run_describing_def run_describe_closure_def handleDescribe_def
      processAndSpeak_def processAndSpeak_settle_def processAndSpeak_try_def
      processAndSpeak_finally_def initial_def LANGUAGES_def)

section \<open>Completion after a stop\<close>

text \<open>
  What the cancellation flag does while it is set: a global stop sets it and clears
  the processing flag and the current action, and a completion that finds it set
  speaks nothing; such a completion changes no state when the processing flag and
  the current action are cleared, or when the current action of the render that made
  the call was not the call's own action.
\<close>

lemma cancelled_completion_discarded:
  "isCancelled (fst (handleStop s0))
   \<and> \<not> isProcessing (fst (handleStop s0))
   \<and> currentAction (fst (handleStop s0)) = None
   \<and> (isCancelled s \<longrightarrow> processAndSpeak_try c r s = [])
   \<and> (isCancelled s \<and> \<not> isProcessing s \<and> currentAction s = None \<longrightarrow>
        processAndSpeak_settle c r s = (s, []))
   \<and> (isCancelled s \<and> cl_currentAction c \<noteq> Some (cl_actionType c) \<longrightarrow>
        processAndSpeak_settle c r s = (s, []))"
proof -
  have a: "isCancelled (fst (handleStop s0)) \<and> \<not> isProcessing (fst (handleStop s0))
      \<and> currentAction (fst (handleStop s0)) = None"
    by (simp add: handleStop_state)
  have b: "isCancelled s \<longrightarrow> processAndSpeak_try c r s = []"
    by (simp add: processAndSpeak_try_def split: settled.split)
  have c: "\<not> isProcessing s \<and> currentAction s = None \<longrightarrow> processAndSpeak_finally c s = s"
    by (cases s) (simp add: processAndSpeak_finally_def)
  have d: "cl_currentAction c \<noteq> Some (cl_actionType c) \<longrightarrow> processAndSpeak_finally c s = s"
    by (simp add: processAndSpeak_finally_def)
  from a b c d show ?thesis by (simp add: processAndSpeak_settle_def)
qed

text \<open>
  At the run below, a completion that arrives before any timer has fired is
  discarded.
\<close>

lemma cancelled_completion_discarded_at_run:
  "processAndSpeak_settle run_describe_closure (Resolved ''A cat.'') run_stopped
     = (run_stopped, [])
   \<and> isCancelled run_stopped
   \<and> processAndSpeak_settle run_describe_closure Rejected run_stopped = (run_stopped, [])"
proof -
  have s: "run_stopped = fst (handleStop run_describing)"
    by (simp add: run_stopped_def run_describing_eq handleDescribe_def)
  show ?thesis
    using cancelled_completion_discarded
        [of run_describing run_stopped run_describe_closure "Resolved ''A cat.''"]
      cancelled_completion_discarded
        [of run_describing run_stopped run_describe_closure Rejected]
    by (simp add: s)
qed

text \<open>
  C2. The claim: after a global stop, any later completion of the call that was in
  flight is discarded, with no speech and no state change. The code sets the flag at
  the stop and tests it when the call completes, but the stop also starts a timer
  that resets the flag after 100 ms. From the initial state: describe with frame
  \<open>''img''\<close>; describe again, which is the global stop and starts the timer; the
  timer fires; the call resolves with \<open>''A cat.''\<close>. The text is spoken.
\<close>

theorem late_completion_after_stop_is_spoken:
  "handleDescribe run_describing None = handleStop run_describing
   \<and> run_stopped = fst (handleStop run_describing)
   \<and> snd (snd (handleStop run_describing)) = [CancelReset 100]
   \<and> processAndSpeak_settle run_describe_closure (Resolved ''A cat.'')
        (handleStop_timeout run_stopped)
     = (handleStop_timeout run_stopped, [Speak ''A cat.'' Zephyr 1])"
  by (simp add: run_stopped_def run_describing_eq run_describe_closure_def handleDescribe_def
      handleStop_def Let_def handleStop_timeout_def processAndSpeak_settle_def
      processAndSpeak_try_def processAndSpeak_finally_def initial_def)

section \<open>Triggering the active action again\<close>

text \<open>
  C3, as stated, fails for the live action. The claim: for each of the four actions,
  triggering the active action again leaves the same state and makes the same calls
  as the global stop. With live mode on, \<^verbatim>\<open>handleLive\<close> only calls
  \<^verbatim>\<open>liveService.stop()\<close> and, once that has resolved, clears the live flag and the
  current action; the global stop also stops speech and sets the cancellation flag.
\<close>

theorem live_toggle_is_not_global_stop:
  "isLive run_live \<and> currentAction run_live = Some ''live''
   \<and> handleLive run_live = (run_live, [LiveStop], [LiveStopping])
   \<and> fst (snd (handleStop run_live)) = [StopSpeech, LiveStop]
   \<and> snd (snd (handleStop run_live)) = [CancelReset 100]
   \<and> isCancelled (fst (handleStop run_live))
   \<and> \<not> isCancelled (handleLive_stopped True (fst (handleLive run_live)))"
  by (simp add: run_live_eq handleLive_def handleStop_state handleStop_effects handleStop_tasks
      handleLive_stopped_def initial_def)

text \<open>
  C3, amended. For describe, identify-person and ask, triggering the intent while
  that action is the current action is the global stop: the same state, calls and
  pending timer. For live, triggering the intent while the live flag is set calls
  \<^verbatim>\<open>liveService.stop()\<close> only, and when that has resolved the live flag and the
  current action are cleared and nothing else changes.
\<close>

theorem retrigger_toggles_off:
  "(currentAction s = Some ''describe'' \<longrightarrow> handleDescribe s frame = handleStop s)
   \<and> (currentAction s = Some ''person'' \<longrightarrow> handlePerson s frame = handleStop s)
   \<and> (currentAction s = Some ''ask'' \<longrightarrow> handleAsk s = handleStop s)
   \<and> (isLive s \<longrightarrow>
        handleLive s = (s, [LiveStop], [LiveStopping])
      \<and> handleLive_stopped True (fst (handleLive s)) = s\<lparr>isLive := False, currentAction := None\<rparr>)"
  by (simp add: handleDescribe_def handlePerson_def handleAsk_def handleLive_def
      handleLive_stopped_def)

text \<open>The amended statement at the describing state and at the live state.\<close>

theorem retrigger_toggles_off_witness:
  "handleDescribe run_describing (Some ''img'') = handleStop run_describing
   \<and> handleLive run_live = (run_live, [LiveStop], [LiveStopping])
   \<and> handleLive_stopped True (fst (handleLive run_live))
     = run_live\<lparr>isLive := False, currentAction := None\<rparr>"
proof -
  have a: "currentAction run_describing = Some ''describe''"
    by (simp add: run_describing_eq)
  have b: "isLive run_live"
    by (simp add: run_live_eq)
  from retrigger_toggles_off [of run_describing "Some ''img''"] a
  have d: "handleDescribe run_describing (Some ''img'') = handleStop run_describing"
    by blast
  from retrigger_toggles_off [of run_live None] b
  have l: "handleLive run_live = (run_live, [LiveStop], [LiveStopping])
      \<and> handleLive_stopped True (fst (handleLive run_live))
        = run_live\<lparr>isLive := False, currentAction := None\<rparr>"
    by blast
  from d l show ?thesis by blast
qed

section \<open>Properties of the frame feed\<close>

lemma feed_count_step:
  "t + 500 < cleared \<Longrightarrow>
     (cleared - t - 1) div 500 = Suc ((cleared - (t + 500) - 1) div 500)" for t cleared :: nat
proof -
  assume a: "t + 500 < cleared"
  define m where "m = cleared - (t + 500) - 1"
  from a have "cleared - t - 1 = m + 500" by (simp add: m_def)
  then have "(cleared - t - 1) div 500 = (m + 500) div 500" by simp
  also have "\<dots> = Suc (m div 500)" by simp
  finally show ?thesis by (simp add: m_def)
qed

lemma feed_times_step:
  "map (\<lambda>k. t + 500 * Suc k) [0..<Suc j]
     = (t + 500) # map (\<lambda>k. (t + 500) + 500 * Suc k) [0..<j]" for t j :: nat
proof -
  have "[0..<Suc j] = 0 # map Suc [0..<j]"
    by (simp add: upt_conv_Cons map_Suc_upt del: upt_Suc)
  then show ?thesis by (simp add: comp_def del: upt_Suc)
qed

lemma liveFeed_fires:
  "t + 500 < cleared \<Longrightarrow>
     liveFeed camera t cleared =
       (t + 500, liveFeedTick (camera (t + 500))) # liveFeed camera (t + 500) cleared"
  by (subst liveFeed.simps) (simp del: liveFeed.simps)

lemma liveFeed_cleared: "\<not> t + 500 < cleared \<Longrightarrow> liveFeed camera t cleared = []"
  by (subst liveFeed.simps) (simp del: liveFeed.simps)

lemma liveFeed_calls:
  "(u, es) \<in> set (liveFeed camera t cleared) \<Longrightarrow>
     t < u \<and> u < cleared \<and> es = liveFeedTick (camera u)"
proof (induction camera t cleared rule: liveFeed.induct)
  case (1 camera t cleared)
  show ?case
  proof (cases "t + 500 < cleared")
    case True
    from "1.prems" have "(u, es) = (t + 500, liveFeedTick (camera (t + 500)))
        \<or> (u, es) \<in> set (liveFeed camera (t + 500) cleared)"
      by (simp only: liveFeed_fires [OF True] set_simps insert_iff)
    then show ?thesis
    proof
      assume "(u, es) = (t + 500, liveFeedTick (camera (t + 500)))"
      with True show ?thesis by (simp del: liveFeed.simps)
    next
      assume "(u, es) \<in> set (liveFeed camera (t + 500) cleared)"
      with "1.IH" [OF True] show ?thesis by (simp del: liveFeed.simps)
    qed
  next
    case False
    then have "liveFeed camera t cleared = []" by (rule liveFeed_cleared)
    with "1.prems" show ?thesis by (simp del: liveFeed.simps)
  qed
qed

text \<open>
  The firing times of an interval armed at \<open>t\<close> and cleared at \<open>cleared\<close> are exactly
  the times \<open>t + 500\<close>, \<open>t + 1000\<close>, ... below \<open>cleared\<close>.
\<close>

lemma liveFeed_times:
  "map fst (liveFeed camera t cleared) =
     map (\<lambda>k. t + 500 * Suc k) [0..<(cleared - t - 1) div 500]"
proof (induction camera t cleared rule: liveFeed.induct)
  case (1 camera t cleared)
  show ?case
  proof (cases "t + 500 < cleared")
    case True
    have "map fst (liveFeed camera t cleared)
        = (t + 500) # map fst (liveFeed camera (t + 500) cleared)"
      by (simp only: liveFeed_fires [OF True] list.map fst_conv)
    also have "\<dots> = (t + 500) #
        map (\<lambda>k. (t + 500) + 500 * Suc k) [0..<(cleared - (t + 500) - 1) div 500]"
      by (simp only: "1.IH" [OF True])
    also have "\<dots> = map (\<lambda>k. t + 500 * Suc k) [0..<Suc ((cleared - (t + 500) - 1) div 500)]"
      by (rule feed_times_step [symmetric])
    also have "\<dots> = map (\<lambda>k. t + 500 * Suc k) [0..<(cleared - t - 1) div 500]"
      by (simp only: feed_count_step [OF True])
    finally show ?thesis .
  next
    case False
    then have "(cleared - t - 1) div 500 = 0" by simp
    moreover have "liveFeed camera t cleared = []"
      using False by (rule liveFeed_cleared)
    ultimately show ?thesis by (simp del: liveFeed.simps)
  qed
qed

lemma liveFeed_1700:
  "liveFeed camera 0 1700 =
     [(500, liveFeedTick (camera 500)), (1000, liveFeedTick (camera 1000)),
      (1500, liveFeedTick (camera 1500))]"
  by simp

lemma pairs_from_fst:
  "\<forall>(u, es) \<in> set xs. es = g u \<Longrightarrow> xs = map (\<lambda>u. (u, g u)) (map fst xs)"
  by (induction xs) auto

text \<open>
  C4, as stated, fails on the toggle-off path. The claim: captures and pushes cease
  the instant live mode ends, a live session of 1700 ms gives exactly three pushes
  and none after teardown begins. With live mode on, the live intent calls
  \<^verbatim>\<open>liveService.stop()\<close> and leaves the live flag set until that promise resolves,
  so the interval stays armed and a tick in between pushes its frame: with the intent
  at 1400 ms and a teardown of 200 ms the tick at 1500 ms pushes, and with the intent
  at 1700 ms and a teardown of 400 ms there are four ticks.
\<close>

theorem live_feed_pushes_during_teardown:
  "isLive run_live
   \<and> handleLive run_live = (run_live, [LiveStop], [LiveStopping])
   \<and> liveFeedArmed (fst (handleLive run_live))
   \<and> liveFeedTick (camera_on 1500) = [SendVideoFrame ''img'']
   \<and> liveToggleRun camera_on 1400 200 =
       [(500, [SendVideoFrame ''img'']), (1000, [SendVideoFrame ''img'']),
        (1500, [SendVideoFrame ''img''])]
   \<and> map fst (liveToggleRun camera_on 1700 400) = [500, 1000, 1500, 2000]"
  by (simp add: run_live_eq handleLive_def liveFeedArmed_def liveFeedTick_def camera_on_def
      liveToggleRun_def initial_def)

text \<open>
  C4, amended. While the live flag is set, the interval fires every 500 ms; a firing
  with a frame pushes that frame, and one with no frame pushes nothing. The firings
  are exactly those strictly before the flag is cleared, so a flag set for 1700 ms
  gives the three firings at 500, 1000 and 1500 ms. The global stop clears the flag
  in the step that calls \<^verbatim>\<open>liveService.stop()\<close>, and so does the close callback;
  the live toggle-off leaves the interval armed after calling
  \<^verbatim>\<open>liveService.stop()\<close> and clears the flag only when that call has resolved.
\<close>

theorem live_feed_follows_live_flag:
  "(f \<noteq> [] \<longrightarrow> liveFeedTick (Some f) = [SendVideoFrame f])
   \<and> liveFeedTick None = []
   \<and> map fst (liveFeed camera t cleared) =
       map (\<lambda>k. t + 500 * Suc k) [0..<(cleared - t - 1) div 500]
   \<and> (\<forall>(u, es) \<in> set (liveFeed camera t cleared).
        t < u \<and> u < cleared \<and> es = liveFeedTick (camera u))
   \<and> map fst (liveFeed camera 0 1700) = [500, 1000, 1500]
   \<and> \<not> liveFeedArmed (fst (handleStop s))
   \<and> (isLive s \<longrightarrow>
        fst (snd (handleLive s)) = [LiveStop]
      \<and> liveFeedArmed (fst (handleLive s))
      \<and> \<not> liveFeedArmed (handleLive_stopped True (fst (handleLive s))))
   \<and> \<not> liveFeedArmed (handleLive_onClose s)"
proof -
  have a: "(f \<noteq> [] \<longrightarrow> liveFeedTick (Some f) = [SendVideoFrame f]) \<and> liveFeedTick None = []"
    by (simp add: liveFeedTick_def)
  have b: "\<forall>(u, es) \<in> set (liveFeed camera t cleared).
      t < u \<and> u < cleared \<and> es = liveFeedTick (camera u)"
    by (auto simp del: liveFeed.simps dest: liveFeed_calls)
  have c: "map fst (liveFeed camera 0 1700) = [500, 1000, 1500]"
    by (simp only: liveFeed_1700 list.map fst_conv)
  have d: "\<not> liveFeedArmed (fst (handleStop s)) \<and> \<not> liveFeedArmed (handleLive_onClose s)"
    by (simp add: liveFeedArmed_def handleStop_state handleLive_onClose_def)
  have e: "isLive s \<longrightarrow>
        fst (snd (handleLive s)) = [LiveStop]
      \<and> liveFeedArmed (fst (handleLive s))
      \<and> \<not> liveFeedArmed (handleLive_stopped True (fst (handleLive s)))"
    by (simp add: liveFeedArmed_def handleLive_def handleLive_stopped_def)
  from a b c d e liveFeed_times [of camera t cleared] show ?thesis by blast
qed

text \<open>
  The amended statement with the camera always delivering \<open>''img''\<close>, the flag set
  for 1700 ms, and the toggle-off at the live state.
\<close>

theorem live_feed_follows_live_flag_witness:
  "liveFeedTick (Some ''img'') = [SendVideoFrame ''img'']
   \<and> liveFeed camera_on 0 1700 =
       [(500, [SendVideoFrame ''img'']), (1000, [SendVideoFrame ''img'']),
        (1500, [SendVideoFrame ''img''])]
   \<and> liveFeedArmed (fst (handleLive run_live))
   \<and> \<not> liveFeedArmed (handleLive_stopped True (fst (handleLive run_live)))"
proof -
  note h = live_feed_follows_live_flag [of "''img''" camera_on 0 1700 run_live]
  have l: "isLive run_live" by (simp add: run_live_eq)
  have n: "''img'' \<noteq> []" by simp
  from h n have 1: "liveFeedTick (Some ''img'') = [SendVideoFrame ''img'']" by blast
  from h l have 2: "liveFeedArmed (fst (handleLive run_live))
      \<and> \<not> liveFeedArmed (handleLive_stopped True (fst (handleLive run_live)))" by blast
  from h have 3: "map fst (liveFeed camera_on 0 1700) = [500, 1000, 1500]"
    and 4: "\<forall>(u, es) \<in> set (liveFeed camera_on 0 1700). es = liveFeedTick (camera_on u)"
    by blast+
  from 4 have "liveFeed camera_on 0 1700 =
      map (\<lambda>u. (u, liveFeedTick (camera_on u))) (map fst (liveFeed camera_on 0 1700))"
    by (rule pairs_from_fst)
  also have "\<dots> = map (\<lambda>u. (u, liveFeedTick (camera_on u))) [500, 1000, 1500]"
    by (simp only: 3)
  also have "\<dots> = [(500, [SendVideoFrame ''img'']), (1000, [SendVideoFrame ''img'']),
      (1500, [SendVideoFrame ''img''])]"
    by (simp add: camera_on_def liveFeedTick_def)
  finally have 5: "liveFeed camera_on 0 1700 =
      [(500, [SendVideoFrame ''img'']), (1000, [SendVideoFrame ''img'']),
       (1500, [SendVideoFrame ''img''])]" .
  from 1 2 5 show ?thesis by blast
qed

section \<open>Voice and rate of the result utterance\<close>

text \<open>
  C5, as stated, fails. The claim: the voice and rate of the result utterance are read
  from the settings at completion time, so a change of settings while the call is in
  flight shows in the utterance. From the initial state (voice Zephyr, rate 1):
  describe with frame \<open>''img''\<close>; the language is set to English (UK), voice Puck,
  and the rate to 2; the call resolves with \<open>''A cat.''\<close>. The text is spoken with
  Zephyr at rate 1.
\<close>

theorem result_voice_is_dispatch_snapshot:
  "snd (snd (handleDescribe (initial True) (Some ''img''))) = [RemoteCall run_describe_closure]
   \<and> voice (language run_settings_changed) = Puck
   \<and> speechSpeed run_settings_changed = 2
   \<and> \<not> isCancelled run_settings_changed
   \<and> processAndSpeak_try run_describe_closure (Resolved ''A cat.'') run_settings_changed
     = [Speak ''A cat.'' Zephyr 1]
   \<and> Speak ''A cat.'' Zephyr 1
     \<noteq> Speak ''A cat.'' (voice (language run_settings_changed)) (speechSpeed run_settings_changed)"
  by (simp add: run_settings_changed_def run_describing_eq run_describe_closure_def
      handleDescribe_def processAndSpeak_def processAndSpeak_try_def setLanguage_def
      setSpeechSpeed_def initial_def LANGUAGES_def)

text \<open>
  C5, amended. The voice and rate of the result utterance, and of the apology, are
  those of the state in which the call was made: whatever the settings are in the
  state \<open>s'\<close> in which the call completes, the utterance uses the voice and rate of
  the state \<open>s\<close> that made the call.
\<close>

theorem result_spoken_with_dispatch_settings:
  "snd (processAndSpeak s actionType) = [RemoteCall c] \<Longrightarrow> \<not> isCancelled s' \<Longrightarrow>
     processAndSpeak_try c (Resolved txt) s' = [Speak txt (voice (language s)) (speechSpeed s)]
   \<and> processAndSpeak_try c Rejected s' =
       [ConsoleError,
        Speak ''Sorry, I encountered an error. Please try again.''
          (voice (language s)) (speechSpeed s)]"
  by (auto simp: processAndSpeak_def processAndSpeak_try_def)

text \<open>The amended statement at the run above.\<close>

theorem result_spoken_with_dispatch_settings_witness:
  "processAndSpeak_try run_describe_closure (Resolved ''A cat.'') run_settings_changed
     = [Speak ''A cat.'' (voice (language (initial True))) (speechSpeed (initial True))]
   \<and> voice (language (initial True)) = Zephyr \<and> speechSpeed (initial True) = 1
   \<and> voice (language run_settings_changed) = Puck \<and> speechSpeed run_settings_changed = 2"
proof -
  have a: "snd (processAndSpeak (initial True) ''describe'') = [RemoteCall run_describe_closure]"
    by (simp add: processAndSpeak_def run_describe_closure_def initial_def LANGUAGES_def)
  have b: "\<not> isCancelled run_settings_changed"
    by (simp add: run_settings_changed_def run_describing_eq setLanguage_def setSpeechSpeed_def
        initial_def)
  have c: "voice (language (initial True)) = Zephyr \<and> speechSpeed (initial True) = 1
      \<and> voice (language run_settings_changed) = Puck \<and> speechSpeed run_settings_changed = 2"
    by (simp add: run_settings_changed_def run_describing_eq setLanguage_def setSpeechSpeed_def
        initial_def LANGUAGES_def)
  show ?thesis
    using result_spoken_with_dispatch_settings [OF a b, of "''A cat.''"] c by simp
qed

section \<open>No frame available\<close>

text \<open>
  C6. When no action is current and nothing is processing, and frame capture returns
  no frame, the describe, identify-person and remember intents do nothing: the state
  is unchanged, no call is made to any collaborator (no remote call, no speech, no
  error) and nothing is left pending; the dialog is not opened.
\<close>

theorem capture_unavailable_aborts:
  "currentAction s = None \<Longrightarrow> \<not> isProcessing s \<Longrightarrow>
     handleDescribe s None = (s, [], [])
   \<and> handlePerson s None = (s, [], [])
   \<and> handleRemember s None = (s, [], [])"
  by (simp add: handleDescribe_def handlePerson_def handleRemember_def)

text \<open>The statement at the initial state.\<close>

theorem capture_unavailable_aborts_witness:
  "handleDescribe (initial True) None = (initial True, [], [])
   \<and> handlePerson (initial True) None = (initial True, [], [])
   \<and> handleRemember (initial True) None = (initial True, [], [])"
  using capture_unavailable_aborts [of "initial True"] by (simp add: initial_def)

section \<open>Saving a remembered person\<close>

lemma trim_whitespace_only: "\<forall>c\<in>set nm. is_whitespace c \<Longrightarrow> trim nm = []"
  by (auto simp: trim_def dest: set_dropWhileD)

text \<open>
  Every step of the component keeps the dialog invariant, so whenever the dialog is
  open a non-empty frame is pending.
\<close>

lemma dialog_has_frame_preserved:
  "dialog_has_frame (initial online)"
  "dialog_has_frame s \<Longrightarrow> dialog_has_frame (fst (handleStop s))"
  "dialog_has_frame s \<Longrightarrow> dialog_has_frame (handleStop_timeout s)"
  "dialog_has_frame s \<Longrightarrow> dialog_has_frame (fst (handleDescribe s frame))"
  "dialog_has_frame s \<Longrightarrow> dialog_has_frame (fst (handlePerson s frame))"
  "dialog_has_frame s \<Longrightarrow> dialog_has_frame (fst (handleRemember s frame))"
  "dialog_has_frame s \<Longrightarrow> dialog_has_frame (fst (handleSavePerson s nm))"
  "dialog_has_frame s \<Longrightarrow> dialog_has_frame (closeRememberModal s)"
  "dialog_has_frame s \<Longrightarrow> dialog_has_frame (fst (handleAsk s))"
  "dialog_has_frame s \<Longrightarrow> dialog_has_frame (fst (askEffect s frame))"
  "dialog_has_frame s \<Longrightarrow> dialog_has_frame (fst (handleLive s))"
  "dialog_has_frame s \<Longrightarrow> dialog_has_frame (handleLive_stopped b s)"
  "dialog_has_frame s \<Longrightarrow> dialog_has_frame (handleLive_onClose s)"
  "dialog_has_frame s \<Longrightarrow> dialog_has_frame (fst (handleLive_startFailed v r s))"
  "dialog_has_frame s \<Longrightarrow> dialog_has_frame (processAndSpeak_finally c s)"
  "dialog_has_frame s \<Longrightarrow> dialog_has_frame (setLanguage l s)"
  "dialog_has_frame s \<Longrightarrow> dialog_has_frame (setSpeechSpeed r s)"
  "dialog_has_frame s \<Longrightarrow> dialog_has_frame (updateOnlineStatus online s)"
  by (simp_all add: dialog_has_frame_def initial_def handleStop_state handleStop_timeout_def
      updateOnlineStatus_def
      handleDescribe_def handlePerson_def handleRemember_def handleSavePerson_def
      closeRememberModal_def handleAsk_def askEffect_def handleLive_def Let_def
      handleLive_stopped_def handleLive_onClose_def handleLive_startFailed_def
      processAndSpeak_def processAndSpeak_finally_def setLanguage_def setSpeechSpeed_def
      split: option.splits)

text \<open>
  C7. Saving in the remember dialog, where a frame \<open>f\<close> is pending: when the trimmed
  name is not empty, one record with the trimmed name and the pending frame is
  appended to the remembered people and a confirmation with the trimmed name is
  spoken; when the trimmed name is empty, as it is for a name of whitespace only,
  nothing is appended and nothing is spoken; in both cases the dialog is closed and
  the pending frame is discarded. The name \<open>''  Alice  ''\<close> is trimmed to
  \<open>''Alice''\<close>, and the empty name and \<open>''   ''\<close> to the empty string.
\<close>

theorem handleSavePerson_saves_trimmed:
  "frameToRemember s = Some f \<Longrightarrow> f \<noteq> [] \<Longrightarrow>
     (trim nm \<noteq> [] \<longrightarrow>
        handleSavePerson s nm =
          (s\<lparr>rememberedPeople := rememberedPeople s @ [\<lparr>name = trim nm, imageBase64 = f\<rparr>],
             showRememberModal := False, frameToRemember := None\<rparr>,
           [Speak (''I'll remember '' @ trim nm @ ''.'') (voice (language s)) (speechSpeed s)],
           []))
   \<and> (trim nm = [] \<longrightarrow>
        handleSavePerson s nm = (s\<lparr>showRememberModal := False, frameToRemember := None\<rparr>, [], []))
   \<and> ((\<forall>c\<in>set nm. is_whitespace c) \<longrightarrow> trim nm = [])
   \<and> \<not> showRememberModal (fst (handleSavePerson s nm))
   \<and> frameToRemember (fst (handleSavePerson s nm)) = None
   \<and> trim ''  Alice  '' = ''Alice'' \<and> trim '''' = '''' \<and> trim ''   '' = ''''"
  by (simp add: handleSavePerson_def trim_whitespace_only) (simp add: trim_def is_whitespace_def)

text \<open>
  The statement at the state in which the dialog has just been opened with frame
  \<open>''img''\<close>, for the three names of the claim.
\<close>

theorem handleSavePerson_saves_trimmed_witness:
  "handleSavePerson run_remembering ''  Alice  '' =
     (run_remembering\<lparr>rememberedPeople := [\<lparr>name = ''Alice'', imageBase64 = ''img''\<rparr>],
        showRememberModal := False, frameToRemember := None\<rparr>,
      [Speak ''I'll remember Alice.'' Zephyr 1], [])
   \<and> handleSavePerson run_remembering ''   '' =
     (run_remembering\<lparr>showRememberModal := False, frameToRemember := None\<rparr>, [], [])
   \<and> handleSavePerson run_remembering '''' =
     (run_remembering\<lparr>showRememberModal := False, frameToRemember := None\<rparr>, [], [])
   \<and> showRememberModal run_remembering"
proof -
  have f: "frameToRemember run_remembering = Some ''img''" and ne: "''img'' \<noteq> []"
    and r: "rememberedPeople run_remembering = []" "voice (language run_remembering) = Zephyr"
       "speechSpeed run_remembering = 1" "showRememberModal run_remembering"
    by (simp_all add: run_remembering_def handleRemember_def initial_def LANGUAGES_def)
  have t: "trim ''  Alice  '' = ''Alice''" "trim ''   '' = []" "trim '''' = []"
    by (simp_all add: trim_def is_whitespace_def)
  show ?thesis
    using handleSavePerson_saves_trimmed [OF f ne, of "''  Alice  ''"]
      handleSavePerson_saves_trimmed [OF f ne, of "''   ''"]
      handleSavePerson_saves_trimmed [OF f ne, of "''''"]
    by (simp add: t r)
qed

section \<open>Starting and closing live mode\<close>




section \<open>Processing flag and current action\<close>

lemma pha_handleStop: "processing_has_action (fst (handleStop s))"
  by (simp add: processing_has_action_def handleStop_state)

lemma pha_processAndSpeak: "processing_has_action (fst (processAndSpeak s a))"
  by (simp add: processing_has_action_def processAndSpeak_def)

lemma pha_handleDescribe:
  "processing_has_action s \<Longrightarrow> processing_has_action (fst (handleDescribe s frame))"
  by (simp add: handleDescribe_def pha_handleStop pha_processAndSpeak split: option.split)

lemma pha_handlePerson:
  "processing_has_action s \<Longrightarrow> processing_has_action (fst (handlePerson s frame))"
  by (simp add: handlePerson_def pha_handleStop pha_processAndSpeak split: option.split)

lemma pha_handleRemember:
  "processing_has_action s \<Longrightarrow> processing_has_action (fst (handleRemember s frame))"
  by (simp add: handleRemember_def processing_has_action_def split: option.split)

lemma pha_handleSavePerson:
  "processing_has_action s \<Longrightarrow> processing_has_action (fst (handleSavePerson s nm))"
  by (simp add: handleSavePerson_def processing_has_action_def split: option.split)

lemma pha_handleAsk:
  "processing_has_action s \<Longrightarrow> processing_has_action (fst (handleAsk s))"
  by (simp add: handleAsk_def pha_handleStop)

lemma pha_askEffect:
  "processing_has_action s \<Longrightarrow> processing_has_action (fst (askEffect s frame))"
  by (simp add: askEffect_def pha_processAndSpeak)

lemma pha_handleLive:
  "processing_has_action s \<Longrightarrow> processing_has_action (fst (handleLive s))"
  by (simp add: handleLive_def Let_def processing_has_action_def handleStop_state)

lemma pha_finally:
  "processing_has_action s \<Longrightarrow> processing_has_action (processAndSpeak_finally c s)"
  by (simp add: processAndSpeak_finally_def processing_has_action_def)

lemma pha_small_steps:
  "processing_has_action s \<Longrightarrow>
     processing_has_action (handleStop_timeout s)
   \<and> processing_has_action (closeRememberModal s)
   \<and> processing_has_action (setLanguage l s)
   \<and> processing_has_action (setSpeechSpeed r s)
   \<and> processing_has_action (updateOnlineStatus b s)
   \<and> processing_has_action (handleLive_stopped False s)"
  by (simp add: processing_has_action_def handleStop_timeout_def closeRememberModal_def
      setLanguage_def setSpeechSpeed_def updateOnlineStatus_def handleLive_stopped_def)

lemma pha_live_close:
  "processing_has_action (handleLive_stopped True s) = (\<not> isProcessing s)"
  "processing_has_action (handleLive_onClose s) = (\<not> isProcessing s)"
  "processing_has_action (fst (handleLive_startFailed v r s)) = (\<not> isProcessing s)"
  by (simp_all add: processing_has_action_def handleLive_stopped_def handleLive_onClose_def
      handleLive_startFailed_def)

text \<open>
  C9, as stated, fails. The claim: in every reachable state a set processing flag
  comes with a current action, and every intent and completion handler preserves
  this. From the initial state: the live intent; the timer of its stop fires; the
  describe intent with frame \<open>''img''\<close>, which the handler accepts while live mode
  is on; the live intent again, whose \<^verbatim>\<open>liveService.stop()\<close> resolves. The state
  before the last step satisfies the implication; in the state after it the
  processing flag is set and there is no current action. The close callback of the
  session does the same.
\<close>

theorem live_close_breaks_processing_invariant:
  "processing_has_action run_live_describing
   \<and> isLive run_live_describing
   \<and> handleLive run_live_describing = (run_live_describing, [LiveStop], [LiveStopping])
   \<and> isProcessing (handleLive_stopped True run_live_describing)
   \<and> currentAction (handleLive_stopped True run_live_describing) = None
   \<and> \<not> processing_has_action (handleLive_stopped True run_live_describing)
   \<and> \<not> processing_has_action (handleLive_onClose run_live_describing)"
  by (simp add: run_live_describing_def run_live_eq handleDescribe_def processAndSpeak_def
      handleLive_def handleLive_stopped_def handleLive_onClose_def processing_has_action_def
      initial_def)

text \<open>
  C9, amended. The implication holds in the initial state and after every global
  stop, and it is preserved by the describe, identify-person, remember, save-person,
  dialog-close, ask and live intents, by the ask effect, by the \<^verbatim>\<open>finally\<close> block of
  a completed call, by the timer of the stop, by the two settings, by the connectivity
  listener and by a rejected \<^verbatim>\<open>liveService.stop()\<close>. The three steps that end live mode (the resolved
  \<^verbatim>\<open>liveService.stop()\<close> of the toggle-off, the close callback and the failed
  start) clear the current action and leave the processing flag as it is: after them
  the implication holds exactly when the processing flag was not set.
\<close>

theorem processing_has_action_preserved:
  "processing_has_action (initial online)
   \<and> processing_has_action (fst (handleStop s))
   \<and> (processing_has_action s \<longrightarrow>
        processing_has_action (fst (handleDescribe s frame))
      \<and> processing_has_action (fst (handlePerson s frame))
      \<and> processing_has_action (fst (handleRemember s frame))
      \<and> processing_has_action (fst (handleSavePerson s nm))
      \<and> processing_has_action (closeRememberModal s)
      \<and> processing_has_action (fst (handleAsk s))
      \<and> processing_has_action (fst (askEffect s frame))
      \<and> processing_has_action (fst (handleLive s))
      \<and> processing_has_action (processAndSpeak_finally c s)
      \<and> processing_has_action (handleStop_timeout s)
      \<and> processing_has_action (setLanguage l s)
      \<and> processing_has_action (setSpeechSpeed r s)
      \<and> processing_has_action (updateOnlineStatus b s)
      \<and> processing_has_action (handleLive_stopped False s))
   \<and> processing_has_action (handleLive_stopped True s) = (\<not> isProcessing s)
   \<and> processing_has_action (handleLive_onClose s) = (\<not> isProcessing s)
   \<and> processing_has_action (fst (handleLive_startFailed v r s)) = (\<not> isProcessing s)"
proof -
  have "processing_has_action (initial online)"
    by (simp add: processing_has_action_def initial_def)
  then show ?thesis
    using pha_handleStop pha_handleDescribe pha_handlePerson pha_handleRemember
      pha_handleSavePerson pha_handleAsk pha_askEffect pha_handleLive pha_finally
      pha_small_steps pha_live_close
    by simp
qed

text \<open>
  The amended statement at the initial state and at the state with a describe call
  in flight.
\<close>

theorem processing_has_action_preserved_witness:
  "processing_has_action (fst (handleDescribe (initial True) (Some ''img'')))
   \<and> processing_has_action (fst (handleLive run_describing))
   \<and> processing_has_action (processAndSpeak_finally run_describe_closure run_describing)
   \<and> isProcessing run_describing
   \<and> \<not> processing_has_action (handleLive_onClose run_describing)"
proof -
  have i: "processing_has_action (initial True)"
    using processing_has_action_preserved [of True] by simp
  have p: "isProcessing run_describing"
    by (simp add: run_describing_eq)
  from i have d: "processing_has_action run_describing"
    using processing_has_action_preserved [of True "initial True" "Some ''img''"]
    by (simp add: run_describing_def)
  from i d p show ?thesis
    using processing_has_action_preserved [of True "initial True" "Some ''img''"]
      processing_has_action_preserved
        [of True run_describing None "''''" run_describe_closure]
    by simp
qed

section \<open>Frame effect of saving a person\<close>

text \<open>
  C10. For every session state and every name, saving a person changes only the
  remembered-people collection, the dialog flag and the pending-frame slot: the
  collection keeps every earlier record in place and grows by at most one record at
  its end, and the current action, the processing flag, the live flag, the language,
  the speech rate and the cancellation flag are as before.
\<close>

theorem handleSavePerson_frame:
  "fst (handleSavePerson s nm) =
     s\<lparr>rememberedPeople := rememberedPeople (fst (handleSavePerson s nm)),
       showRememberModal := showRememberModal (fst (handleSavePerson s nm)),
       frameToRemember := frameToRemember (fst (handleSavePerson s nm))\<rparr>
   \<and> take (length (rememberedPeople s)) (rememberedPeople (fst (handleSavePerson s nm)))
       = rememberedPeople s
   \<and> length (rememberedPeople (fst (handleSavePerson s nm))) \<le> length (rememberedPeople s) + 1
   \<and> currentAction (fst (handleSavePerson s nm)) = currentAction s
   \<and> isProcessing (fst (handleSavePerson s nm)) = isProcessing s
   \<and> isLive (fst (handleSavePerson s nm)) = isLive s
   \<and> language (fst (handleSavePerson s nm)) = language s
   \<and> speechSpeed (fst (handleSavePerson s nm)) = speechSpeed s
   \<and> isCancelled (fst (handleSavePerson s nm)) = isCancelled s"
  by (simp add: handleSavePerson_def split: option.split)

end
